theory Spec2Isabelle
  imports Complex_Main
begin

section \<open>The special-case decision engine of \<open>src/components/extra.tsx\<close>\<close>

text \<open>
  The engine classifies one detection event at a time (\<open>decideSpecialCase\<close>) and keeps,
  between calls, a per-cell persistence counter and a window of recent events.  The
  TypeScript mutates the engine state in place; here the function takes the state and
  returns the decision together with the state it leaves behind.

  JavaScript numbers are modelled by \<open>real\<close> (scores, timestamps, degrees, metres) and the
  persistence counter, which only ever holds \<open>1\<close> or a successor, by \<open>nat\<close>.  Rounding
  errors of the double arithmetic, \<open>NaN\<close> and the infinities are outside the model.
\<close>

subsection \<open>Data\<close>

type_synonym Coord = "real \<times> real"

text \<open>A GeoJSON polygon: its linear rings, the outer ring first, then the holes.\<close>

type_synonym Polygon = "Coord list list"

text \<open>
  The two functions of the geometry library \<open>@turf/turf\<close> that the engine calls.  The
  library is not part of the repository, so the engine is parameterised by them:
  \<open>distance p q\<close> stands for \<open>turf.distance(turf.point(p), turf.point(q), {units: 'meters'})\<close>
  and \<open>booleanPointInPolygon p poly\<close> for \<open>turf.booleanPointInPolygon(turf.point(p), poly)\<close>.
\<close>

record Turf =
  distance :: "Coord \<Rightarrow> Coord \<Rightarrow> real"
  booleanPointInPolygon :: "Coord \<Rightarrow> Polygon \<Rightarrow> bool"

text \<open>
  \<open>aois = None\<close> is an absent \<open>ctx.aois\<close>; otherwise the list holds the features of the
  collection (\<open>ctx.aois.features || []\<close>).  \<open>assets = None\<close> is an absent \<open>ctx.assets\<close>.
\<close>

record SpecialCaseContext =
  aois :: "Polygon list option"
  assets :: "Coord list option"

record EventInput =
  label :: string
  score :: real
  coord :: Coord
  ts :: real

datatype Decision = Ignore | Record | Surface | AutoDispatch

record CellEntry =
  count :: nat
  lastTs :: real

record RecentEntry =
  r_label :: string
  r_coord :: Coord
  r_ts :: real

text \<open>
  The key of a cell is the string \<open>label:i:j\<close> with \<open>i\<close>, \<open>j\<close> the rounded grid indices.
  The two indices are printed integers and hold no colon, so the string determines the
  label and both indices; the triple is used in its place.
\<close>

type_synonym CellKey = "string \<times> int \<times> int"

record EngineState =
  lastByCell :: "CellKey \<rightharpoonup> CellEntry"
  recent :: "RecentEntry list"

subsection \<open>Constants\<close>

definition CELL_DEG :: real where
  "CELL_DEG = 0.00035"

text \<open>\<open>Math.round\<close>: the nearest integer, a half rounded towards plus infinity.\<close>

definition Math_round :: "real \<Rightarrow> int" where
  "Math_round x = \<lfloor>x + 1 / 2\<rfloor>"

definition cellKey :: "string \<Rightarrow> Coord \<Rightarrow> CellKey" where
  "cellKey lbl c = (lbl, Math_round (fst c / CELL_DEG), Math_round (snd c / CELL_DEG))"

text \<open>
  An entry of the threshold table \<open>THR\<close>.  A field that the entry does not have is \<open>None\<close>
  (\<open>undefined\<close> in the source).
\<close>

record Thr =
  conf :: real
  autoConf :: "real option"
  persistTicks :: "nat option"
  persistTicksAOI :: "nat option"
  clusterCount :: "nat option"
  clusterMeters :: "real option"
  clusterWindowMs :: "real option"

definition THR_fire :: Thr where
  "THR_fire = \<lparr>conf = 0.88, autoConf = Some 0.95, persistTicks = Some 2,
     persistTicksAOI = None, clusterCount = None, clusterMeters = None,
     clusterWindowMs = None\<rparr>"

definition THR_person :: Thr where
  "THR_person = \<lparr>conf = 0.9, autoConf = None, persistTicks = None,
     persistTicksAOI = Some 3, clusterCount = Some 3, clusterMeters = Some 100,
     clusterWindowMs = Some 30000\<rparr>"

definition THR_people :: Thr where
  "THR_people = \<lparr>conf = 0.9, autoConf = None, persistTicks = None,
     persistTicksAOI = Some 3, clusterCount = Some 3, clusterMeters = Some 100,
     clusterWindowMs = Some 30000\<rparr>"

definition THR_chemical :: Thr where
  "THR_chemical = \<lparr>conf = 0.85, autoConf = None, persistTicks = None,
     persistTicksAOI = None, clusterCount = None, clusterMeters = None,
     clusterWindowMs = None\<rparr>"

text \<open>
  The dynamic lookup \<open>(THR as any)[label]\<close>.  A label that names no entry gives
  \<open>undefined\<close>, or a member of \<open>Object.prototype\<close> that has no \<open>clusterCount\<close>; both
  are \<open>None\<close> here.
\<close>

definition THR :: "string \<Rightarrow> Thr option" where
  "THR lbl =
     (if lbl = ''fire'' then Some THR_fire
      else if lbl = ''person'' then Some THR_person
      else if lbl = ''people'' then Some THR_people
      else if lbl = ''chemical'' then Some THR_chemical
      else None)"

definition NEAR_ASSET_METERS :: real where
  "NEAR_ASSET_METERS = 60"

definition PERSIST_MAX_GAP_MS :: real where
  "PERSIST_MAX_GAP_MS = 12000"

text \<open>\<open>x >= v\<close> where \<open>v\<close> may be \<open>undefined\<close>: the comparison is then false.\<close>

definition js_ge :: "'a::ord \<Rightarrow> 'a option \<Rightarrow> bool" where
  "js_ge x v = (case v of None \<Rightarrow> False | Some w \<Rightarrow> w \<le> x)"

text \<open>
  \<open>toLowerCase\<close> on the letters \<open>A\<close> to \<open>Z\<close> (codes 65 to 90): the lower-case letter
  is 32 above, which is the same code with bit 5 set.  Every other character is kept.
\<close>

definition lower_char :: "char \<Rightarrow> char" where
  "lower_char c =
     (let n = (of_char c :: nat)
      in if 65 \<le> n \<and> n \<le> 90
         then Char (digit0 c) (digit1 c) (digit2 c) (digit3 c) (digit4 c) True (digit6 c) (digit7 c)
         else c)"

definition toLowerCase :: "string \<Rightarrow> string" where
  "toLowerCase s = map lower_char s"

subsection \<open>The engine\<close>

definition initSpecialCaseEngine :: EngineState where
  "initSpecialCaseEngine = \<lparr>lastByCell = Map.empty, recent = []\<rparr>"

text \<open>The recent buffer after the push and the filter on the cutoff.\<close>

definition updateRecent :: "RecentEntry list \<Rightarrow> string \<Rightarrow> EventInput \<Rightarrow> RecentEntry list" where
  "updateRecent rs lbl ev =
     (let pushed = rs @ [\<lparr>r_label = lbl, r_coord = coord ev, r_ts = ts ev\<rparr>];
          cutoff = ts ev - 60000
      in filter (\<lambda>r. cutoff \<le> r_ts r) pushed)"

text \<open>The entry stored for the event's cell.\<close>

definition updateCell :: "CellEntry option \<Rightarrow> real \<Rightarrow> CellEntry" where
  "updateCell prev t =
     (case prev of
        None \<Rightarrow> \<lparr>count = 1, lastTs = t\<rparr>
      | Some p \<Rightarrow>
          if PERSIST_MAX_GAP_MS < t - lastTs p then \<lparr>count = 1, lastTs = t\<rparr>
          else \<lparr>count = count p + 1, lastTs = t\<rparr>)"

definition insideAOI :: "Turf \<Rightarrow> SpecialCaseContext \<Rightarrow> Coord \<Rightarrow> bool" where
  "insideAOI tf ctx c =
     (case aois ctx of
        None \<Rightarrow> False
      | Some features \<Rightarrow> list_ex (\<lambda>poly. booleanPointInPolygon tf c poly) features)"

definition nearAsset :: "Turf \<Rightarrow> SpecialCaseContext \<Rightarrow> Coord \<Rightarrow> bool" where
  "nearAsset tf ctx c =
     (case assets ctx of
        None \<Rightarrow> False
      | Some as \<Rightarrow>
          if length as = 0 then False
          else list_ex (\<lambda>a. distance tf c a \<le> NEAR_ASSET_METERS) as)"

text \<open>The cluster check, on the recent buffer as the call has already updated it.\<close>

definition clusterHit :: "Turf \<Rightarrow> RecentEntry list \<Rightarrow> string \<Rightarrow> Coord \<Rightarrow> real \<Rightarrow> bool" where
  "clusterHit tf rs lbl pt t =
     (case THR lbl of
        None \<Rightarrow> False
      | Some base \<Rightarrow>
          (case clusterCount base of
             None \<Rightarrow> False
           | Some cc \<Rightarrow>
               if cc = 0 then False
               else
                 let since = t - (case clusterWindowMs base of None \<Rightarrow> 30000 | Some w \<Rightarrow> w);
                     meters = (case clusterMeters base of None \<Rightarrow> 100 | Some m \<Rightarrow> m);
                     hits = filter (\<lambda>r. \<not> (r_label r \<noteq> lbl \<or> r_ts r < since)
                                          \<and> distance tf pt (r_coord r) \<le> meters) rs
                 in cc \<le> length hits))"

text \<open>
  The rules.  Each \<open>if\<close> block of the source is one function that gives \<open>Some d\<close> where
  the block returns \<open>d\<close> and \<open>None\<close> where control falls through to the next block.
\<close>

definition rule_fire :: "string \<Rightarrow> real \<Rightarrow> nat \<Rightarrow> bool \<Rightarrow> Decision option" where
  "rule_fire lbl sc persistCount inAOI =
     (if lbl = ''fire'' \<and> conf THR_fire \<le> sc then
        (if js_ge persistCount (persistTicks THR_fire) then
           (if js_ge sc (autoConf THR_fire) \<or> inAOI then Some AutoDispatch
            else Some Surface)
         else Some Record)
      else None)"

definition rule_person :: "string \<Rightarrow> real \<Rightarrow> nat \<Rightarrow> bool \<Rightarrow> bool \<Rightarrow> Decision option" where
  "rule_person lbl sc persistCount inAOI cluster =
     (if (lbl = ''person'' \<or> lbl = ''people'') \<and> conf THR_person \<le> sc then
        (if inAOI then
           (if js_ge persistCount (persistTicksAOI THR_person) \<or> cluster then Some Surface
            else Some Record)
         else None)
      else None)"

definition rule_chemical :: "string \<Rightarrow> real \<Rightarrow> bool \<Rightarrow> bool \<Rightarrow> Decision option" where
  "rule_chemical lbl sc inAOI near =
     (if lbl = ''chemical'' \<and> conf THR_chemical \<le> sc then
        (if inAOI \<or> near then Some Surface else Some Record)
      else None)"

definition rule_nearAsset :: "string \<Rightarrow> real \<Rightarrow> bool \<Rightarrow> Decision option" where
  "rule_nearAsset lbl sc near =
     (if near \<and> (lbl = ''person'' \<or> lbl = ''people'' \<or> lbl = ''fire'') then
        (let ok = ((lbl = ''fire'' \<and> 0.85 \<le> sc)
                   \<or> ((lbl = ''person'' \<or> lbl = ''people'') \<and> 0.92 \<le> sc))
         in if ok then Some Surface else None)
      else None)"

text \<open>The blocks in the order of the source, and the final \<open>return 'record'\<close>.\<close>

definition rules :: "string \<Rightarrow> real \<Rightarrow> nat \<Rightarrow> bool \<Rightarrow> bool \<Rightarrow> bool \<Rightarrow> Decision" where
  "rules lbl sc persistCount inAOI near cluster =
     (case rule_fire lbl sc persistCount inAOI of
        Some d \<Rightarrow> d
      | None \<Rightarrow>
     (case rule_person lbl sc persistCount inAOI cluster of
        Some d \<Rightarrow> d
      | None \<Rightarrow>
     (case rule_chemical lbl sc inAOI near of
        Some d \<Rightarrow> d
      | None \<Rightarrow>
     (case rule_nearAsset lbl sc near of
        Some d \<Rightarrow> d
      | None \<Rightarrow> Record))))"

definition decideSpecialCase ::
  "Turf \<Rightarrow> EngineState \<Rightarrow> EventInput \<Rightarrow> SpecialCaseContext \<Rightarrow> Decision \<times> EngineState" where
  "decideSpecialCase tf st ev ctx =
     (let lbl = toLowerCase (label ev);
          t = ts ev;
          recent' = updateRecent (recent st) lbl ev;
          key = cellKey lbl (coord ev);
          entry = updateCell (lastByCell st key) t;
          st' = \<lparr>lastByCell = (lastByCell st)(key \<mapsto> entry), recent = recent'\<rparr>;
          persistCount = count entry
      in (rules lbl (score ev) persistCount
            (insideAOI tf ctx (coord ev))
            (nearAsset tf ctx (coord ev))
            (clusterHit tf recent' lbl (coord ev) t),
          st'))"

subsection \<open>The geometry library\<close>

text \<open>
  A model of the two library functions, for the scenarios that place events at given
  coordinates.  \<open>turf.distance\<close> is the haversine formula on a sphere of radius
  \<open>6371008.8\<close> metres; \<open>turf.booleanPointInPolygon\<close> is the even-odd ray test on the
  outer ring, less the holes, with a point on the boundary counted as inside.
\<close>

definition earthRadius :: real where
  "earthRadius = 6371008.8"

text \<open>The remainder operator \<open>%\<close>: the quotient is truncated towards zero.\<close>

definition js_rem :: "real \<Rightarrow> real \<Rightarrow> real" where
  "js_rem a b = a - b * of_int (if 0 \<le> a / b then \<lfloor>a / b\<rfloor> else \<lceil>a / b\<rceil>)"

definition degreesToRadians :: "real \<Rightarrow> real" where
  "degreesToRadians degrees = js_rem degrees 360 * pi / 180"

definition Math_atan2 :: "real \<Rightarrow> real \<Rightarrow> real" where
  "Math_atan2 y x =
     (if 0 < x then arctan (y / x)
      else if x < 0 then (if 0 \<le> y then arctan (y / x) + pi else arctan (y / x) - pi)
      else if 0 < y then pi / 2
      else if y < 0 then - (pi / 2)
      else 0)"

definition turf_distance :: "Coord \<Rightarrow> Coord \<Rightarrow> real" where
  "turf_distance c1 c2 =
     (let dLat = degreesToRadians (snd c2 - snd c1);
          dLon = degreesToRadians (fst c2 - fst c1);
          lat1 = degreesToRadians (snd c1);
          lat2 = degreesToRadians (snd c2);
          a = (sin (dLat / 2))\<^sup>2 + (sin (dLon / 2))\<^sup>2 * cos lat1 * cos lat2
      in 2 * Math_atan2 (sqrt a) (sqrt (1 - a)) * earthRadius)"

text \<open>
  The loop of \<open>inRing\<close> over the edges \<open>(ring[i], ring[j])\<close>: an edge that holds the point
  ends the loop with \<open>!ignoreBoundary\<close>, an edge that the ray crosses flips the answer.
\<close>

fun inRing_loop :: "Coord \<Rightarrow> (Coord \<times> Coord) list \<Rightarrow> bool \<Rightarrow> bool \<Rightarrow> bool" where
  "inRing_loop pt [] ignoreBoundary isInside = isInside"
| "inRing_loop pt (((xi, yi), (xj, yj)) # es) ignoreBoundary isInside =
     (let onBoundary =
            (snd pt * (xi - xj) + yi * (xj - fst pt) + yj * (fst pt - xi) = 0
             \<and> (xi - fst pt) * (xj - fst pt) \<le> 0
             \<and> (yi - snd pt) * (yj - snd pt) \<le> 0);
          intersect =
            ((snd pt < yi) \<noteq> (snd pt < yj)
             \<and> fst pt < (xj - xi) * (snd pt - yi) / (yj - yi) + xi)
      in if onBoundary then \<not> ignoreBoundary
         else inRing_loop pt es ignoreBoundary (if intersect then \<not> isInside else isInside))"

text \<open>A ring whose last vertex repeats the first loses it; vertex \<open>i\<close> is paired with its
  predecessor, the first vertex with the last.\<close>

definition inRing :: "Coord \<Rightarrow> Coord list \<Rightarrow> bool \<Rightarrow> bool" where
  "inRing pt ring0 ignoreBoundary =
     (let ring = (if ring0 \<noteq> [] \<and> hd ring0 = last ring0 then butlast ring0 else ring0)
      in if ring = [] then False
         else inRing_loop pt (zip ring (last ring # butlast ring)) ignoreBoundary False)"

definition turf_booleanPointInPolygon :: "Coord \<Rightarrow> Polygon \<Rightarrow> bool" where
  "turf_booleanPointInPolygon pt poly =
     (case poly of
        [] \<Rightarrow> False
      | outer # holes \<Rightarrow> inRing pt outer False \<and> \<not> list_ex (\<lambda>h. inRing pt h True) holes)"

definition turf :: Turf where
  "turf = \<lparr>distance = turf_distance, booleanPointInPolygon = turf_booleanPointInPolygon\<rparr>"

text \<open>The urgency order on decisions: auto-dispatch, surface, record, ignore.\<close>

fun urgency :: "Decision \<Rightarrow> nat" where
  "urgency Ignore = 0"
| "urgency Record = 1"
| "urgency Surface = 2"
| "urgency AutoDispatch = 3"

section \<open>Facts about the geometry library\<close>

text \<open>
  Two closed forms of the haversine distance: a point is at distance zero from itself,
  and along a meridian the distance is the arc of the latitude difference.
\<close>

lemma pi_ge_three: "3 \<le> pi"
proof -
  have "sin (pi / 6) \<le> pi / 6" by (rule sin_x_le_x) simp
  then show ?thesis by (simp add: sin_30)
qed

lemma js_rem_small: "\<bar>d\<bar> < 360 \<Longrightarrow> js_rem d 360 = d"
proof -
  assume h: "\<bar>d\<bar> < 360"
  show ?thesis
  proof (cases "0 \<le> d")
    case True
    then have "\<lfloor>d / 360\<rfloor> = 0" using h by (simp add: floor_eq_iff)
    with True show ?thesis by (simp add: js_rem_def)
  next
    case False
    then have "\<lceil>d / 360\<rceil> = 0" using h by (simp add: ceiling_eq_iff)
    with False show ?thesis by (simp add: js_rem_def)
  qed
qed

lemma turf_distance_self: "turf_distance c c = 0"
  by (simp add: turf_distance_def degreesToRadians_def js_rem_def Math_atan2_def Let_def)

lemma atan2_half_angle:
  assumes "0 \<le> u" "u < pi / 2"
  shows "Math_atan2 (sqrt ((sin u)\<^sup>2)) (sqrt (1 - (sin u)\<^sup>2)) = u"
proof -
  have c: "0 < cos u" using assms by (intro cos_gt_zero_pi) auto
  have s: "0 \<le> sin u" using assms by (intro sin_ge_zero) auto
  have "1 - (sin u)\<^sup>2 = (cos u)\<^sup>2" by (simp add: cos_squared_eq)
  then have "sqrt (1 - (sin u)\<^sup>2) = cos u" using c by simp
  moreover have "sqrt ((sin u)\<^sup>2) = sin u" using s by simp
  moreover have "arctan (sin u / cos u) = u"
    using assms arctan_tan [of u] by (simp add: tan_def)
  ultimately show ?thesis using c by (simp add: Math_atan2_def)
qed

lemma turf_distance_meridian:
  assumes "\<bar>b - a\<bar> < 180"
  shows "turf_distance (x, a) (x, b) = earthRadius * (\<bar>b - a\<bar> * pi / 180)"
proof -
  let ?u = "\<bar>b - a\<bar> * pi / 360"
  have r: "js_rem (b - a) 360 = b - a" using assms by (intro js_rem_small) simp
  have z: "js_rem 0 360 = 0" by (simp add: js_rem_def)
  have ev: "(sin (d * pi / 180 / 2))\<^sup>2 = (sin (\<bar>d\<bar> * pi / 360))\<^sup>2" for d :: real
  proof (cases "0 \<le> d")
    case True
    then show ?thesis by simp
  next
    case False
    have "(sin (- e * pi / 180 / 2))\<^sup>2 = (sin (e * pi / 360))\<^sup>2" for e :: real
      by simp
    from this [of "- d"] False show ?thesis by simp
  qed
  have sq: "(sin ((b - a) * pi / 180 / 2))\<^sup>2 = (sin ?u)\<^sup>2"
    by (rule ev)
  have u0: "0 \<le> ?u" by simp
  have "\<bar>b - a\<bar> * pi < 180 * pi" using assms by simp
  then have u1: "?u < pi / 2" by simp
  have dl: "degreesToRadians (b - a) = (b - a) * pi / 180"
    by (simp add: degreesToRadians_def r)
  have d0: "degreesToRadians 0 = 0"
    by (simp add: degreesToRadians_def z)
  have a_eq: "(sin (degreesToRadians (b - a) / 2))\<^sup>2
                + (sin (degreesToRadians 0 / 2))\<^sup>2 * cos l1 * cos l2 = (sin ?u)\<^sup>2" for l1 l2
    by (simp only: dl d0 sq) simp
  have "turf_distance (x, a) (x, b)
        = 2 * Math_atan2 (sqrt ((sin ?u)\<^sup>2)) (sqrt (1 - (sin ?u)\<^sup>2)) * earthRadius"
    by (simp only: turf_distance_def Let_def fst_conv snd_conv diff_self a_eq)
  also have "\<dots> = 2 * ?u * earthRadius" by (simp only: atan2_half_angle [OF u0 u1])
  finally show ?thesis by simp
qed

section \<open>Facts about the engine\<close>

text \<open>The decision, the recent buffer and the cell table that one call leaves behind.\<close>

lemmas thr_defs = THR_fire_def THR_person_def THR_people_def THR_chemical_def
lemmas rule_defs = rules_def rule_fire_def rule_person_def rule_chemical_def rule_nearAsset_def js_ge_def

lemma decide_fst:
  "fst (decideSpecialCase tf st ev ctx) =
     rules (toLowerCase (label ev)) (score ev)
       (count (updateCell (lastByCell st (cellKey (toLowerCase (label ev)) (coord ev))) (ts ev)))
       (insideAOI tf ctx (coord ev)) (nearAsset tf ctx (coord ev))
       (clusterHit tf (updateRecent (recent st) (toLowerCase (label ev)) ev)
          (toLowerCase (label ev)) (coord ev) (ts ev))"
  by (simp add: decideSpecialCase_def Let_def)

lemma decide_recent:
  "recent (snd (decideSpecialCase tf st ev ctx)) =
     updateRecent (recent st) (toLowerCase (label ev)) ev"
  by (simp add: decideSpecialCase_def Let_def)

lemma decide_lastByCell:
  "lastByCell (snd (decideSpecialCase tf st ev ctx)) =
     (lastByCell st)(cellKey (toLowerCase (label ev)) (coord ev) \<mapsto>
        updateCell (lastByCell st (cellKey (toLowerCase (label ev)) (coord ev))) (ts ev))"
  by (simp add: decideSpecialCase_def Let_def)

lemma updateRecent_eq:
  "updateRecent rs lbl ev =
     filter (\<lambda>r. ts ev - 60000 \<le> r_ts r) rs @ [\<lparr>r_label = lbl, r_coord = coord ev, r_ts = ts ev\<rparr>]"
  by (simp add: updateRecent_def Let_def)

lemma toLowerCase_fire: "toLowerCase ''fire'' = ''fire''"
  by (simp add: toLowerCase_def lower_char_def)
lemma toLowerCase_person: "toLowerCase ''person'' = ''person''"
  by (simp add: toLowerCase_def lower_char_def)
lemma toLowerCase_chemical: "toLowerCase ''chemical'' = ''chemical''"
  by (simp add: toLowerCase_def lower_char_def)

text \<open>The cell update, case by case.\<close>

lemma updateCell_lastTs: "lastTs (updateCell prev t) = t"
  by (simp add: updateCell_def split: option.split)

lemma updateCell_None: "updateCell None t = \<lparr>count = 1, lastTs = t\<rparr>"
  by (simp add: updateCell_def)

lemma updateCell_Some:
  "updateCell (Some p) t =
     (if 12000 < t - lastTs p then \<lparr>count = 1, lastTs = t\<rparr>
      else \<lparr>count = count p + 1, lastTs = t\<rparr>)"
  by (simp add: updateCell_def PERSIST_MAX_GAP_MS_def)

text \<open>A point 0.01 degrees of latitude away is beyond 60 metres, and a point west of a
  rectangle is outside it.\<close>

lemma far_asset: "\<not> turf_distance (11.50, 48.71) (11.50, 48.72) \<le> 60"
proof -
  have "turf_distance (11.50, 48.71) (11.50, 48.72) = earthRadius * (\<bar>48.72 - 48.71\<bar> * pi / 180)"
    by (rule turf_distance_meridian) simp
  moreover have "60 < earthRadius * (\<bar>48.72 - 48.71\<bar> * pi / 180)"
    using pi_ge_three by (simp add: earthRadius_def)
  ultimately show ?thesis by simp
qed

lemma outside_aoi:
  "\<not> turf_booleanPointInPolygon (11.50, 48.71)
       [[(11.60, 48.70), (11.61, 48.70), (11.61, 48.72), (11.60, 48.72), (11.60, 48.70)]]"
  by (simp add: turf_booleanPointInPolygon_def inRing_def)

text \<open>An asset is near its own coordinate, and near a point 0.0002 degrees of latitude
  away.\<close>

lemma nearAsset_self: "nearAsset turf \<lparr>aois = A, assets = Some [a]\<rparr> a"
  by (simp add: nearAsset_def turf_def turf_distance_self NEAR_ASSET_METERS_def)

lemma close_asset: "turf_distance (11.50, 48.7102) (11.50, 48.71) \<le> 60"
proof -
  have "turf_distance (11.50, 48.7102) (11.50, 48.71)
          = earthRadius * (\<bar>48.71 - 48.7102\<bar> * pi / 180)"
    by (rule turf_distance_meridian) simp
  moreover have "earthRadius * (\<bar>48.71 - 48.7102\<bar> * pi / 180) \<le> 60"
    using pi_less_4 by (simp add: earthRadius_def)
  ultimately show ?thesis by simp
qed

text \<open>
  Away from every asset the decision for a fire event is monotone in the score: with the
  state, the context, the coordinate and the timestamp fixed, a higher score never gets
  a less urgent decision.
\<close>

lemma fire_monotone_away_from_assets:
  assumes "toLowerCase (label ev) = ''fire''"
    and "\<not> nearAsset tf ctx (coord ev)"
    and "score ev \<le> s2"
  shows "urgency (fst (decideSpecialCase tf st ev ctx))
           \<le> urgency (fst (decideSpecialCase tf st (ev\<lparr>score := s2\<rparr>) ctx))"
  using assms by (auto simp add: decide_fst rule_defs thr_defs)

text \<open>The cluster check for the label person, and the person rule on a cluster hit.\<close>

lemma clusterHit_person:
  "clusterHit tf rs ''person'' pt t =
     (3 \<le> length (filter (\<lambda>r. r_label r = ''person'' \<and> t - 30000 \<le> r_ts r
                                \<and> distance tf pt (r_coord r) \<le> 100) rs))"
  by (simp add: clusterHit_def THR_def THR_person_def Let_def not_less)

lemma rules_person_cluster:
  "0.9 \<le> sc \<Longrightarrow> rules ''person'' sc n True near True = Surface"
  by (simp add: rule_defs thr_defs)

text \<open>
  Three points on the meridian 11.50: the two outer ones are each within 100 metres of
  the middle one and more than 100 metres apart; they lie in one rectangle and in two
  different cells.
\<close>

lemma within_100_of_centre:
  "turf_distance (11.50, 48.71) (11.50, 48.7093) \<le> 100"
  "turf_distance (11.50, 48.71) (11.50, 48.7107) \<le> 100"
proof -
  have a: "turf_distance (11.50, 48.71) (11.50, 48.7093)
             = earthRadius * (\<bar>48.7093 - 48.71\<bar> * pi / 180)"
    by (rule turf_distance_meridian) simp
  have a': "earthRadius * (\<bar>48.7093 - 48.71\<bar> * pi / 180) \<le> 100"
    using pi_less_4 by (simp add: earthRadius_def)
  have b: "turf_distance (11.50, 48.71) (11.50, 48.7107)
             = earthRadius * (\<bar>48.7107 - 48.71\<bar> * pi / 180)"
    by (rule turf_distance_meridian) simp
  have b': "earthRadius * (\<bar>48.7107 - 48.71\<bar> * pi / 180) \<le> 100"
    using pi_less_4 by (simp add: earthRadius_def)
  show "turf_distance (11.50, 48.71) (11.50, 48.7093) \<le> 100"
    using a a' by simp
  show "turf_distance (11.50, 48.71) (11.50, 48.7107) \<le> 100"
    using b b' by simp
qed

lemma ends_beyond_100: "\<not> turf_distance (11.50, 48.7107) (11.50, 48.7093) \<le> 100"
proof -
  have "turf_distance (11.50, 48.7107) (11.50, 48.7093)
          = earthRadius * (\<bar>48.7093 - 48.7107\<bar> * pi / 180)"
    by (rule turf_distance_meridian) simp
  moreover have "100 < earthRadius * (\<bar>48.7093 - 48.7107\<bar> * pi / 180)"
    using pi_ge_three by (simp add: earthRadius_def)
  ultimately show ?thesis by simp
qed

lemma inside_rectangle:
  "turf_booleanPointInPolygon (11.50, 48.7093)
     [[(11.49, 48.70), (11.51, 48.70), (11.51, 48.72), (11.49, 48.72), (11.49, 48.70)]]"
  "turf_booleanPointInPolygon (11.50, 48.7107)
     [[(11.49, 48.70), (11.51, 48.70), (11.51, 48.72), (11.49, 48.72), (11.49, 48.70)]]"
  by (simp_all add: turf_booleanPointInPolygon_def inRing_def)

lemma two_cells:
  "cellKey ''person'' (11.50, 48.7093) = (''person'', 32857, 139169)"
  "cellKey ''person'' (11.50, 48.7107) = (''person'', 32857, 139173)"
  by (simp_all add: cellKey_def Math_round_def CELL_DEG_def)

section \<open>Properties\<close>

subsection \<open>Scenarios on a fresh engine\<close>

text \<open>
  C3.  Fire escalation: on a fresh engine the fire event with score 0.96 at
  (11.50, 48.71) and time 1000 is recorded, with persistence count 1; the same event
  at time 5000 falls in the same cell 4000 ms later, brings the count to 2 and, with a
  score of at least 0.95, is auto-dispatched.  This holds for every context, the empty
  one included, and whatever the geometry functions return.
\<close>

theorem fire_escalation_scenario:
  "fst (decideSpecialCase tf initSpecialCaseEngine
          \<lparr>label = ''fire'', score = 0.96, coord = (11.50, 48.71), ts = 1000\<rparr> ctx) = Record
   \<and> map_option count
        (lastByCell (snd (decideSpecialCase tf initSpecialCaseEngine
            \<lparr>label = ''fire'', score = 0.96, coord = (11.50, 48.71), ts = 1000\<rparr> ctx))
           (cellKey ''fire'' (11.50, 48.71))) = Some 1
   \<and> fst (decideSpecialCase tf
          (snd (decideSpecialCase tf initSpecialCaseEngine
             \<lparr>label = ''fire'', score = 0.96, coord = (11.50, 48.71), ts = 1000\<rparr> ctx))
          \<lparr>label = ''fire'', score = 0.96, coord = (11.50, 48.71), ts = 5000\<rparr> ctx) = AutoDispatch
   \<and> map_option count
        (lastByCell (snd (decideSpecialCase tf
          (snd (decideSpecialCase tf initSpecialCaseEngine
             \<lparr>label = ''fire'', score = 0.96, coord = (11.50, 48.71), ts = 1000\<rparr> ctx))
          \<lparr>label = ''fire'', score = 0.96, coord = (11.50, 48.71), ts = 5000\<rparr> ctx))
           (cellKey ''fire'' (11.50, 48.71))) = Some 2"
  by (simp add: decide_fst decide_lastByCell updateCell_def initSpecialCaseEngine_def
        PERSIST_MAX_GAP_MS_def rule_defs thr_defs toLowerCase_fire)

text \<open>
  C4.  Persistence accumulation and reset: on a fresh engine with the empty context, a
  fire event with score 0.90 is recorded; the same event one second later at the same
  coordinate is surfaced (count 2, score below 0.95, no area of interest); and the same
  event at least 12001 ms after the first is recorded again, since the gap exceeds
  12000 ms and the count of the cell goes back to 1.
\<close>

theorem persistence_accumulation_and_reset:
  "fst (decideSpecialCase tf initSpecialCaseEngine
          \<lparr>label = ''fire'', score = 0.90, coord = c, ts = t0\<rparr>
          \<lparr>aois = None, assets = None\<rparr>) = Record
   \<and> fst (decideSpecialCase tf
          (snd (decideSpecialCase tf initSpecialCaseEngine
             \<lparr>label = ''fire'', score = 0.90, coord = c, ts = t0\<rparr>
             \<lparr>aois = None, assets = None\<rparr>))
          \<lparr>label = ''fire'', score = 0.90, coord = c, ts = t0 + 1000\<rparr>
          \<lparr>aois = None, assets = None\<rparr>) = Surface
   \<and> (12001 \<le> gap \<longrightarrow>
        fst (decideSpecialCase tf
          (snd (decideSpecialCase tf initSpecialCaseEngine
             \<lparr>label = ''fire'', score = 0.90, coord = c, ts = t0\<rparr>
             \<lparr>aois = None, assets = None\<rparr>))
          \<lparr>label = ''fire'', score = 0.90, coord = c, ts = t0 + gap\<rparr>
          \<lparr>aois = None, assets = None\<rparr>) = Record)"
  by (simp add: decide_fst decide_lastByCell updateCell_def initSpecialCaseEngine_def
        PERSIST_MAX_GAP_MS_def rule_defs thr_defs toLowerCase_fire insideAOI_def)

theorem persistence_accumulation_and_reset_witness:
  "(12001::real) \<le> 12001
   \<and> fst (decideSpecialCase turf
          (snd (decideSpecialCase turf initSpecialCaseEngine
             \<lparr>label = ''fire'', score = 0.90, coord = (11.50, 48.71), ts = 1000\<rparr>
             \<lparr>aois = None, assets = None\<rparr>))
          \<lparr>label = ''fire'', score = 0.90, coord = (11.50, 48.71), ts = 1000 + 12001\<rparr>
          \<lparr>aois = None, assets = None\<rparr>) = Record"
  using persistence_accumulation_and_reset [of turf "(11.50, 48.71)" 1000 12001] by simp

subsection \<open>Timestamps out of order\<close>

text \<open>
  C2, as the code has it.  When the cell of the event is already in the table and the
  event's timestamp is earlier than the stored one, the gap \<open>ts - lastTs\<close> is negative.
  A negative gap is not above 12000 ms, so the cell is not reset: its count goes up by
  one and its stored timestamp moves back to the event's.
\<close>

theorem out_of_order_timestamp_increments:
  assumes "lastByCell st (cellKey (toLowerCase (label ev)) (coord ev)) = Some p"
    and "ts ev < lastTs p"
  shows "ts ev - lastTs p < 0
     \<and> lastByCell (snd (decideSpecialCase tf st ev ctx))
         (cellKey (toLowerCase (label ev)) (coord ev))
       = Some \<lparr>count = count p + 1, lastTs = ts ev\<rparr>"
  using assms by (simp add: decide_lastByCell updateCell_def PERSIST_MAX_GAP_MS_def)

theorem out_of_order_timestamp_increments_witness:
  "lastByCell (snd (decideSpecialCase turf
        (snd (decideSpecialCase turf initSpecialCaseEngine
           \<lparr>label = ''fire'', score = 0.96, coord = (11.50, 48.71), ts = 5000\<rparr>
           \<lparr>aois = None, assets = None\<rparr>))
        \<lparr>label = ''fire'', score = 0.96, coord = (11.50, 48.71), ts = 1000\<rparr>
        \<lparr>aois = None, assets = None\<rparr>)) (cellKey ''fire'' (11.50, 48.71))
     = Some \<lparr>count = 2, lastTs = 1000\<rparr>"
proof -
  let ?e1 = "\<lparr>label = ''fire'', score = 0.96, coord = (11.50, 48.71), ts = 5000\<rparr>"
  let ?e2 = "\<lparr>label = ''fire'', score = 0.96, coord = (11.50, 48.71), ts = 1000\<rparr>"
  let ?ctx = "\<lparr>aois = None, assets = None\<rparr>"
  let ?s1 = "snd (decideSpecialCase turf initSpecialCaseEngine ?e1 ?ctx)"
  have h1: "lastByCell ?s1 (cellKey (toLowerCase (label ?e2)) (coord ?e2))
              = Some \<lparr>count = 1, lastTs = 5000\<rparr>"
    by (simp add: decide_lastByCell updateCell_def initSpecialCaseEngine_def toLowerCase_fire)
  have h2: "ts ?e2 < lastTs \<lparr>count = 1, lastTs = 5000\<rparr>" by simp
  show ?thesis
    using out_of_order_timestamp_increments [OF h1 h2, of turf ?ctx]
    by (simp add: toLowerCase_fire)
qed

text \<open>
  C2, as the claim states it, fails: after a fire event at time 5000, the same event at
  time 1000 leaves the cell with a count that is not 1.
\<close>

theorem out_of_order_timestamp_counterexample:
  "lastByCell (snd (decideSpecialCase turf initSpecialCaseEngine
        \<lparr>label = ''fire'', score = 0.96, coord = (11.50, 48.71), ts = 5000\<rparr>
        \<lparr>aois = None, assets = None\<rparr>)) (cellKey ''fire'' (11.50, 48.71))
     = Some \<lparr>count = 1, lastTs = 5000\<rparr>
   \<and> map_option count (lastByCell (snd (decideSpecialCase turf
        (snd (decideSpecialCase turf initSpecialCaseEngine
           \<lparr>label = ''fire'', score = 0.96, coord = (11.50, 48.71), ts = 5000\<rparr>
           \<lparr>aois = None, assets = None\<rparr>))
        \<lparr>label = ''fire'', score = 0.96, coord = (11.50, 48.71), ts = 1000\<rparr>
        \<lparr>aois = None, assets = None\<rparr>)) (cellKey ''fire'' (11.50, 48.71)))
     \<noteq> Some 1"
  by (simp add: decide_lastByCell updateCell_def initSpecialCaseEngine_def
        PERSIST_MAX_GAP_MS_def toLowerCase_fire)

subsection \<open>The state after a call\<close>

text \<open>
  C8.  Window pruning: after every call with an event at time \<open>t\<close>, no entry of the
  recent buffer is older than \<open>t - 60000\<close>.  In particular, after an event at time 0 and
  then one at time 61000 on a fresh engine, the buffer holds the second entry alone.
\<close>

theorem recent_window_pruned:
  "(\<forall>r \<in> set (recent (snd (decideSpecialCase tf st ev ctx))). ts ev - 60000 \<le> r_ts r)
   \<and> recent (snd (decideSpecialCase tf
        (snd (decideSpecialCase tf initSpecialCaseEngine
               \<lparr>label = l1, score = s1, coord = c1, ts = 0\<rparr> ctx1))
        \<lparr>label = l2, score = s2, coord = c2, ts = 61000\<rparr> ctx2))
     = [\<lparr>r_label = toLowerCase l2, r_coord = c2, r_ts = 61000\<rparr>]"
  by (simp add: decide_recent updateRecent_eq initSpecialCaseEngine_def)

theorem recent_window_pruned_witness:
  "\<lparr>r_label = ''fire'', r_coord = (11.50, 48.71), r_ts = 1000\<rparr>
     \<in> set (recent (snd (decideSpecialCase turf
          \<lparr>lastByCell = Map.empty,
           recent = [\<lparr>r_label = ''fire'', r_coord = (11.50, 48.71), r_ts = 0\<rparr>,
                     \<lparr>r_label = ''fire'', r_coord = (11.50, 48.71), r_ts = 1000\<rparr>]\<rparr>
          \<lparr>label = ''fire'', score = 0.9, coord = (11.50, 48.71), ts = 60500\<rparr>
          \<lparr>aois = None, assets = None\<rparr>)))
   \<and> (60500::real) - 60000 \<le> 1000
   \<and> \<lparr>r_label = ''fire'', r_coord = (11.50, 48.71), r_ts = 0\<rparr>
     \<notin> set (recent (snd (decideSpecialCase turf
          \<lparr>lastByCell = Map.empty,
           recent = [\<lparr>r_label = ''fire'', r_coord = (11.50, 48.71), r_ts = 0\<rparr>,
                     \<lparr>r_label = ''fire'', r_coord = (11.50, 48.71), r_ts = 1000\<rparr>]\<rparr>
          \<lparr>label = ''fire'', score = 0.9, coord = (11.50, 48.71), ts = 60500\<rparr>
          \<lparr>aois = None, assets = None\<rparr>)))"
  using recent_window_pruned [of turf
          "\<lparr>lastByCell = Map.empty,
           recent = [\<lparr>r_label = ''fire'', r_coord = (11.50, 48.71), r_ts = 0\<rparr>,
                     \<lparr>r_label = ''fire'', r_coord = (11.50, 48.71), r_ts = 1000\<rparr>]\<rparr>"
          "\<lparr>label = ''fire'', score = 0.9, coord = (11.50, 48.71), ts = 60500\<rparr>"
          "\<lparr>aois = None, assets = None\<rparr>"]
  by (simp add: decide_recent updateRecent_eq toLowerCase_fire)

text \<open>
  C9.  The state changes on every call, whatever the decision.  The buffer is the old
  one, pruned, with the event appended.  The event's cell is set to count 1 when it was
  absent or the gap is above 12000 ms, and has its count incremented otherwise; no other
  cell changes.  A second call with the identical event increments the count of the
  cell again.
\<close>

theorem state_mutation_unconditional:
  "(let lbl = toLowerCase (label ev);
        key = cellKey lbl (coord ev);
        st1 = snd (decideSpecialCase tf st ev ctx);
        st2 = snd (decideSpecialCase tf st1 ev ctx)
    in recent st1 = filter (\<lambda>r. ts ev - 60000 \<le> r_ts r) (recent st)
                      @ [\<lparr>r_label = lbl, r_coord = coord ev, r_ts = ts ev\<rparr>]
     \<and> (lastByCell st key = None \<longrightarrow>
          lastByCell st1 key = Some \<lparr>count = 1, lastTs = ts ev\<rparr>)
     \<and> (\<forall>p. lastByCell st key = Some p \<and> 12000 < ts ev - lastTs p \<longrightarrow>
          lastByCell st1 key = Some \<lparr>count = 1, lastTs = ts ev\<rparr>)
     \<and> (\<forall>p. lastByCell st key = Some p \<and> ts ev - lastTs p \<le> 12000 \<longrightarrow>
          lastByCell st1 key = Some \<lparr>count = count p + 1, lastTs = ts ev\<rparr>)
     \<and> (\<forall>k. k \<noteq> key \<longrightarrow> lastByCell st1 k = lastByCell st k)
     \<and> lastByCell st1 key \<noteq> None
     \<and> map_option count (lastByCell st2 key)
         = map_option (\<lambda>p. count p + 1) (lastByCell st1 key))"
  by (auto simp add: Let_def decide_recent decide_lastByCell updateRecent_eq
        updateCell_lastTs updateCell_None updateCell_Some)

theorem state_mutation_unconditional_witness:
  "map_option count (lastByCell (snd (decideSpecialCase turf
      (snd (decideSpecialCase turf
         \<lparr>lastByCell = [cellKey ''person'' (11.50, 48.71) \<mapsto> \<lparr>count = 5, lastTs = 9000\<rparr>],
          recent = []\<rparr>
         \<lparr>label = ''person'', score = 0.5, coord = (11.50, 48.71), ts = 10000\<rparr>
         \<lparr>aois = None, assets = None\<rparr>))
      \<lparr>label = ''person'', score = 0.5, coord = (11.50, 48.71), ts = 10000\<rparr>
      \<lparr>aois = None, assets = None\<rparr>)) (cellKey ''person'' (11.50, 48.71))) = Some 7
   \<and> fst (decideSpecialCase turf
         \<lparr>lastByCell = [cellKey ''person'' (11.50, 48.71) \<mapsto> \<lparr>count = 5, lastTs = 9000\<rparr>],
          recent = []\<rparr>
         \<lparr>label = ''person'', score = 0.5, coord = (11.50, 48.71), ts = 10000\<rparr>
         \<lparr>aois = None, assets = None\<rparr>) = Record"
proof -
  let ?st = "\<lparr>lastByCell = [cellKey ''person'' (11.50, 48.71) \<mapsto> \<lparr>count = 5, lastTs = 9000\<rparr>],
          recent = []\<rparr>"
  let ?ev = "\<lparr>label = ''person'', score = 0.5, coord = (11.50, 48.71), ts = 10000\<rparr>"
  let ?ctx = "\<lparr>aois = None, assets = None\<rparr>"
  have d: "fst (decideSpecialCase turf ?st ?ev ?ctx) = Record"
    by (simp add: decide_fst rule_defs thr_defs toLowerCase_person)
  have p: "lastByCell ?st (cellKey ''person'' (11.50, 48.71)) = Some \<lparr>count = 5, lastTs = 9000\<rparr>"
    by simp
  from state_mutation_unconditional [of ?ev turf ?st ?ctx] p d
  show ?thesis
    by (simp add: Let_def toLowerCase_person)
qed

subsection \<open>Gating of person events\<close>

text \<open>
  C5.  A person (or people) event whose coordinate is in no area of interest and within
  60 metres of no critical asset is recorded: never surfaced, never auto-dispatched.
  This holds for every score, 0.95 included, and for every engine state, whatever the
  persistence count of the cell.
\<close>

theorem person_outside_aoi_far_from_assets_is_recorded:
  assumes "toLowerCase (label ev) = ''person'' \<or> toLowerCase (label ev) = ''people''"
    and "\<not> insideAOI tf ctx (coord ev)"
    and "\<not> nearAsset tf ctx (coord ev)"
  shows "fst (decideSpecialCase tf st ev ctx) = Record"
  using assms by (auto simp add: decide_fst rule_defs)

theorem person_outside_aoi_far_from_assets_is_recorded_witness:
  "fst (decideSpecialCase turf
     \<lparr>lastByCell = [cellKey ''person'' (11.50, 48.71) \<mapsto> \<lparr>count = 5, lastTs = 9000\<rparr>],
      recent = []\<rparr>
     \<lparr>label = ''Person'', score = 0.95, coord = (11.50, 48.71), ts = 10000\<rparr>
     \<lparr>aois = Some [[[(11.60, 48.70), (11.61, 48.70), (11.61, 48.72), (11.60, 48.72), (11.60, 48.70)]]],
      assets = Some [(11.50, 48.72)]\<rparr>) = Record"
proof -
  let ?ev = "\<lparr>label = ''Person'', score = 0.95, coord = (11.50, 48.71), ts = 10000\<rparr>"
  let ?ctx = "\<lparr>aois = Some [[[(11.60, 48.70), (11.61, 48.70), (11.61, 48.72), (11.60, 48.72), (11.60, 48.70)]]],
      assets = Some [(11.50, 48.72)]\<rparr>"
  have l: "toLowerCase (label ?ev) = ''person'' \<or> toLowerCase (label ?ev) = ''people''"
    by (simp add: toLowerCase_def lower_char_def)
  have i: "\<not> insideAOI turf ?ctx (coord ?ev)"
    using outside_aoi by (simp add: insideAOI_def turf_def)
  have n: "\<not> nearAsset turf ?ctx (coord ?ev)"
    using far_asset by (simp add: nearAsset_def turf_def NEAR_ASSET_METERS_def)
  show ?thesis
    by (rule person_outside_aoi_far_from_assets_is_recorded [OF l i n])
qed

subsection \<open>Events near a critical asset\<close>

text \<open>
  C7.  Chemical near an asset: on a fresh engine, a chemical event with score 0.86 at
  time 0, placed at the coordinate of the only critical asset, is near that asset (the
  distance is 0) and is surfaced on the first call.  The areas of interest play no part:
  the result is the same with none, as in the claim, or with any.
\<close>

theorem chemical_near_asset_surfaces:
  "nearAsset turf \<lparr>aois = A, assets = Some [a]\<rparr> a
   \<and> fst (decideSpecialCase turf initSpecialCaseEngine
          \<lparr>label = ''chemical'', score = 0.86, coord = a, ts = 0\<rparr>
          \<lparr>aois = A, assets = Some [a]\<rparr>) = Surface"
  by (simp add: decide_fst rule_defs thr_defs toLowerCase_chemical nearAsset_self)

text \<open>
  C1.  Monotonicity in the score is broken for fire near an asset.  On a fresh engine
  with one asset at the event's coordinate, a fire event with score 0.86 is below the
  fire threshold, reaches the near-asset rule and is surfaced; the same event with score
  0.90 enters the fire rule, which returns record at persistence count 1 before the
  near-asset rule is reached.  The higher score gets the less urgent decision.
\<close>

theorem fire_near_asset_higher_score_less_urgent:
  "fst (decideSpecialCase turf initSpecialCaseEngine
          \<lparr>label = ''fire'', score = 0.86, coord = (11.50, 48.71), ts = 1000\<rparr>
          \<lparr>aois = None, assets = Some [(11.50, 48.71)]\<rparr>) = Surface
   \<and> fst (decideSpecialCase turf initSpecialCaseEngine
          \<lparr>label = ''fire'', score = 0.90, coord = (11.50, 48.71), ts = 1000\<rparr>
          \<lparr>aois = None, assets = Some [(11.50, 48.71)]\<rparr>) = Record
   \<and> urgency Record < urgency Surface"
  by (simp add: decide_fst rule_defs thr_defs toLowerCase_fire nearAsset_self
        updateCell_None initSpecialCaseEngine_def)

subsection \<open>No decision is ignore\<close>

text \<open>
  C10, as the code has it.  No call returns ignore.  A person or people event with score
  below 0.9 and a chemical event with score below 0.85 are recorded.  A fire event with
  score below 0.88 is recorded, except when it is within 60 metres of an asset and its
  score is at least 0.85: the near-asset rule then surfaces it.
\<close>

theorem never_ignore_below_threshold_recorded:
  "fst (decideSpecialCase tf st ev ctx) \<noteq> Ignore
   \<and> ((toLowerCase (label ev) = ''person'' \<or> toLowerCase (label ev) = ''people'')
        \<and> score ev < 0.9 \<longrightarrow> fst (decideSpecialCase tf st ev ctx) = Record)
   \<and> (toLowerCase (label ev) = ''chemical'' \<and> score ev < 0.85 \<longrightarrow>
        fst (decideSpecialCase tf st ev ctx) = Record)
   \<and> (toLowerCase (label ev) = ''fire'' \<and> score ev < 0.88
        \<and> \<not> (nearAsset tf ctx (coord ev) \<and> 0.85 \<le> score ev) \<longrightarrow>
        fst (decideSpecialCase tf st ev ctx) = Record)
   \<and> (toLowerCase (label ev) = ''fire'' \<and> score ev < 0.88
        \<and> nearAsset tf ctx (coord ev) \<and> 0.85 \<le> score ev \<longrightarrow>
        fst (decideSpecialCase tf st ev ctx) = Surface)"
  by (auto simp add: decide_fst rule_defs thr_defs)

theorem never_ignore_below_threshold_recorded_witness:
  "fst (decideSpecialCase turf initSpecialCaseEngine
          \<lparr>label = ''fire'', score = 0.87, coord = (11.50, 48.7102), ts = 1000\<rparr>
          \<lparr>aois = None, assets = Some [(11.50, 48.71)]\<rparr>) = Surface
   \<and> fst (decideSpecialCase turf initSpecialCaseEngine
          \<lparr>label = ''Chemical'', score = 0.84, coord = (11.50, 48.7102), ts = 1000\<rparr>
          \<lparr>aois = None, assets = Some [(11.50, 48.71)]\<rparr>) = Record"
proof -
  let ?ctx = "\<lparr>aois = None, assets = Some [(11.50, 48.71)]\<rparr>"
  let ?f = "\<lparr>label = ''fire'', score = 0.87, coord = (11.50, 48.7102), ts = 1000\<rparr>"
  let ?c = "\<lparr>label = ''Chemical'', score = 0.84, coord = (11.50, 48.7102), ts = 1000\<rparr>"
  have n: "nearAsset turf ?ctx (coord ?f)"
    using close_asset by (simp add: nearAsset_def turf_def NEAR_ASSET_METERS_def)
  have lf: "toLowerCase (label ?f) = ''fire''" by (simp add: toLowerCase_fire)
  have lc: "toLowerCase (label ?c) = ''chemical''"
    by (simp add: toLowerCase_def lower_char_def)
  have sf: "score ?f < 0.88 \<and> 0.85 \<le> score ?f" by simp
  have sc: "score ?c < 0.85" by simp
  from never_ignore_below_threshold_recorded [of turf initSpecialCaseEngine ?f ?ctx] lf sf n
  have 1: "fst (decideSpecialCase turf initSpecialCaseEngine ?f ?ctx) = Surface" by blast
  from never_ignore_below_threshold_recorded [of turf initSpecialCaseEngine ?c ?ctx] lc sc
  have 2: "fst (decideSpecialCase turf initSpecialCaseEngine ?c ?ctx) = Record" by blast
  from 1 2 show ?thesis by (rule conjI)
qed

text \<open>
  C10, as the claim states it, fails: a fire event with score 0.87, below the fire
  threshold of 0.88, about 22 metres from an asset is not recorded (it is surfaced).
\<close>

theorem below_threshold_fire_counterexample:
  "score \<lparr>label = ''fire'', score = 0.87, coord = (11.50, 48.7102), ts = 1000\<rparr> < conf THR_fire
   \<and> fst (decideSpecialCase turf initSpecialCaseEngine
          \<lparr>label = ''fire'', score = 0.87, coord = (11.50, 48.7102), ts = 1000\<rparr>
          \<lparr>aois = None, assets = Some [(11.50, 48.71)]\<rparr>) \<noteq> Record"
  using close_asset
  by (simp add: decide_fst rule_defs thr_defs toLowerCase_fire nearAsset_def turf_def
        NEAR_ASSET_METERS_def)

subsection \<open>Cluster detection\<close>

text \<open>
  C6, as the code has it.  The cluster check measures from the coordinate of the current
  event.  Three person events within a 30-second span, the third with score 0.91 and
  inside an area of interest, the first two each within 100 metres of the third event's
  coordinate: the third call finds three person detections in its trailing 30 seconds,
  itself included, and returns surface.  This holds from every engine state, whatever
  the persistence count of any cell.
\<close>

theorem cluster_of_three_surfaces:
  assumes l1: "toLowerCase (label e1) = ''person''"
    and l2: "toLowerCase (label e2) = ''person''"
    and l3: "toLowerCase (label e3) = ''person''"
    and sc: "score e3 = 0.91"
    and aoi: "insideAOI turf ctx (coord e3)"
    and d1: "turf_distance (coord e3) (coord e1) \<le> 100"
    and d2: "turf_distance (coord e3) (coord e2) \<le> 100"
    and t12: "\<bar>ts e1 - ts e2\<bar> \<le> 30000"
    and t13: "\<bar>ts e1 - ts e3\<bar> \<le> 30000"
    and t23: "\<bar>ts e2 - ts e3\<bar> \<le> 30000"
  shows "fst (decideSpecialCase turf
           (snd (decideSpecialCase turf (snd (decideSpecialCase turf st e1 ctx1)) e2 ctx2))
           e3 ctx) = Surface"
proof -
  let ?s2 = "snd (decideSpecialCase turf (snd (decideSpecialCase turf st e1 ctx1)) e2 ctx2)"
  let ?r1 = "\<lparr>r_label = ''person'', r_coord = coord e1, r_ts = ts e1\<rparr>"
  let ?r2 = "\<lparr>r_label = ''person'', r_coord = coord e2, r_ts = ts e2\<rparr>"
  let ?r3 = "\<lparr>r_label = ''person'', r_coord = coord e3, r_ts = ts e3\<rparr>"
  have dt: "distance turf = turf_distance" by (simp add: turf_def)
  have k2: "ts e2 - 60000 \<le> ts e1" using t12 by simp
  have k3: "ts e3 - 60000 \<le> ts e1" "ts e3 - 60000 \<le> ts e2" using t13 t23 by simp_all
  have w3: "ts e3 - 30000 \<le> ts e1" "ts e3 - 30000 \<le> ts e2" using t13 t23 by simp_all
  have rs: "updateRecent (recent ?s2) ''person'' e3
          = filter (\<lambda>r. ts e3 - 60000 \<le> r_ts r)
              (filter (\<lambda>r. ts e2 - 60000 \<le> r_ts r)
                 (filter (\<lambda>r. ts e1 - 60000 \<le> r_ts r) (recent st)))
            @ [?r1, ?r2, ?r3]"
    using k2 k3 by (simp add: decide_recent updateRecent_eq l1 l2)
  have hit: "clusterHit turf (updateRecent (recent ?s2) ''person'' e3) ''person'' (coord e3) (ts e3)"
    using d1 d2 w3 by (simp add: rs clusterHit_person dt turf_distance_self)
  show ?thesis
    using hit aoi sc by (simp add: decide_fst [of turf ?s2] l3 rules_person_cluster)
qed

theorem cluster_of_three_surfaces_witness:
  "fst (decideSpecialCase turf
        (snd (decideSpecialCase turf
           (snd (decideSpecialCase turf initSpecialCaseEngine
              \<lparr>label = ''person'', score = 0.91, coord = (11.50, 48.7097), ts = 0\<rparr>
              \<lparr>aois = Some [[[(11.49, 48.70), (11.51, 48.70), (11.51, 48.72), (11.49, 48.72),
                               (11.49, 48.70)]]], assets = None\<rparr>))
           \<lparr>label = ''person'', score = 0.91, coord = (11.50, 48.7100), ts = 5000\<rparr>
           \<lparr>aois = Some [[[(11.49, 48.70), (11.51, 48.70), (11.51, 48.72), (11.49, 48.72),
                            (11.49, 48.70)]]], assets = None\<rparr>))
        \<lparr>label = ''person'', score = 0.91, coord = (11.50, 48.7103), ts = 10000\<rparr>
        \<lparr>aois = Some [[[(11.49, 48.70), (11.51, 48.70), (11.51, 48.72), (11.49, 48.72),
                         (11.49, 48.70)]]], assets = None\<rparr>) = Surface"
proof -
  let ?ctx = "\<lparr>aois = Some [[[(11.49, 48.70), (11.51, 48.70), (11.51, 48.72), (11.49, 48.72),
                         (11.49, 48.70)]]], assets = None\<rparr>"
  let ?e1 = "\<lparr>label = ''person'', score = 0.91, coord = (11.50, 48.7097), ts = 0\<rparr>"
  let ?e2 = "\<lparr>label = ''person'', score = 0.91, coord = (11.50, 48.7100), ts = 5000\<rparr>"
  let ?e3 = "\<lparr>label = ''person'', score = 0.91, coord = (11.50, 48.7103), ts = 10000\<rparr>"
  have pp: "booleanPointInPolygon turf = turf_booleanPointInPolygon" by (simp add: turf_def)
  have l1: "toLowerCase (label ?e1) = ''person''" by (simp add: toLowerCase_person)
  have l2: "toLowerCase (label ?e2) = ''person''" by (simp add: toLowerCase_person)
  have l3: "toLowerCase (label ?e3) = ''person''" by (simp add: toLowerCase_person)
  have sc: "score ?e3 = 0.91" by simp
  have aoi: "insideAOI turf ?ctx (coord ?e3)"
    by (simp add: insideAOI_def pp turf_booleanPointInPolygon_def inRing_def)
  have a: "turf_distance (11.50, 48.7103) (11.50, 48.7097)
             = earthRadius * (\<bar>48.7097 - 48.7103\<bar> * pi / 180)"
    by (rule turf_distance_meridian) simp
  have a': "earthRadius * (\<bar>48.7097 - 48.7103\<bar> * pi / 180) \<le> 100"
    using pi_less_4 by (simp add: earthRadius_def)
  have b: "turf_distance (11.50, 48.7103) (11.50, 48.7100)
             = earthRadius * (\<bar>48.7100 - 48.7103\<bar> * pi / 180)"
    by (rule turf_distance_meridian) simp
  have b': "earthRadius * (\<bar>48.7100 - 48.7103\<bar> * pi / 180) \<le> 100"
    using pi_less_4 by (simp add: earthRadius_def)
  have d1: "turf_distance (coord ?e3) (coord ?e1) \<le> 100" using a a' by simp
  have d2: "turf_distance (coord ?e3) (coord ?e2) \<le> 100" using b b' by simp
  have t12: "\<bar>ts ?e1 - ts ?e2\<bar> \<le> 30000" by simp
  have t13: "\<bar>ts ?e1 - ts ?e3\<bar> \<le> 30000" by simp
  have t23: "\<bar>ts ?e2 - ts ?e3\<bar> \<le> 30000" by simp
  show ?thesis
    by (rule cluster_of_three_surfaces [OF l1 l2 l3 sc aoi d1 d2 t12 t13 t23])
qed

text \<open>
  C6, as the claim states it, fails.  Three person events with score 0.91 in one
  rectangle, five seconds apart, each within 100 metres of the common point
  (11.50, 48.71): the first two at latitude 48.7093, the third at 48.7107.  The third
  event is more than 100 metres from the other two, so the cluster check counts it
  alone and the decision is not surface.  The two cells end with counts 2 and 1.
\<close>

theorem cluster_common_point_counterexample:
  "turf_distance (11.50, 48.71) (11.50, 48.7093) \<le> 100
   \<and> turf_distance (11.50, 48.71) (11.50, 48.7107) \<le> 100
   \<and> insideAOI turf
        \<lparr>aois = Some [[[(11.49, 48.70), (11.51, 48.70), (11.51, 48.72), (11.49, 48.72),
                         (11.49, 48.70)]]], assets = None\<rparr> (11.50, 48.7093)
   \<and> insideAOI turf
        \<lparr>aois = Some [[[(11.49, 48.70), (11.51, 48.70), (11.51, 48.72), (11.49, 48.72),
                         (11.49, 48.70)]]], assets = None\<rparr> (11.50, 48.7107)
   \<and> fst (decideSpecialCase turf
        (snd (decideSpecialCase turf
           (snd (decideSpecialCase turf initSpecialCaseEngine
              \<lparr>label = ''person'', score = 0.91, coord = (11.50, 48.7093), ts = 0\<rparr>
              \<lparr>aois = Some [[[(11.49, 48.70), (11.51, 48.70), (11.51, 48.72), (11.49, 48.72),
                               (11.49, 48.70)]]], assets = None\<rparr>))
           \<lparr>label = ''person'', score = 0.91, coord = (11.50, 48.7093), ts = 5000\<rparr>
           \<lparr>aois = Some [[[(11.49, 48.70), (11.51, 48.70), (11.51, 48.72), (11.49, 48.72),
                            (11.49, 48.70)]]], assets = None\<rparr>))
        \<lparr>label = ''person'', score = 0.91, coord = (11.50, 48.7107), ts = 10000\<rparr>
        \<lparr>aois = Some [[[(11.49, 48.70), (11.51, 48.70), (11.51, 48.72), (11.49, 48.72),
                         (11.49, 48.70)]]], assets = None\<rparr>) \<noteq> Surface
   \<and> map_option count (lastByCell (snd (decideSpecialCase turf
        (snd (decideSpecialCase turf
           (snd (decideSpecialCase turf initSpecialCaseEngine
              \<lparr>label = ''person'', score = 0.91, coord = (11.50, 48.7093), ts = 0\<rparr>
              \<lparr>aois = Some [[[(11.49, 48.70), (11.51, 48.70), (11.51, 48.72), (11.49, 48.72),
                               (11.49, 48.70)]]], assets = None\<rparr>))
           \<lparr>label = ''person'', score = 0.91, coord = (11.50, 48.7093), ts = 5000\<rparr>
           \<lparr>aois = Some [[[(11.49, 48.70), (11.51, 48.70), (11.51, 48.72), (11.49, 48.72),
                            (11.49, 48.70)]]], assets = None\<rparr>))
        \<lparr>label = ''person'', score = 0.91, coord = (11.50, 48.7107), ts = 10000\<rparr>
        \<lparr>aois = Some [[[(11.49, 48.70), (11.51, 48.70), (11.51, 48.72), (11.49, 48.72),
                         (11.49, 48.70)]]], assets = None\<rparr>)) (''person'', 32857, 139169))
       = Some 2
   \<and> map_option count (lastByCell (snd (decideSpecialCase turf
        (snd (decideSpecialCase turf
           (snd (decideSpecialCase turf initSpecialCaseEngine
              \<lparr>label = ''person'', score = 0.91, coord = (11.50, 48.7093), ts = 0\<rparr>
              \<lparr>aois = Some [[[(11.49, 48.70), (11.51, 48.70), (11.51, 48.72), (11.49, 48.72),
                               (11.49, 48.70)]]], assets = None\<rparr>))
           \<lparr>label = ''person'', score = 0.91, coord = (11.50, 48.7093), ts = 5000\<rparr>
           \<lparr>aois = Some [[[(11.49, 48.70), (11.51, 48.70), (11.51, 48.72), (11.49, 48.72),
                            (11.49, 48.70)]]], assets = None\<rparr>))
        \<lparr>label = ''person'', score = 0.91, coord = (11.50, 48.7107), ts = 10000\<rparr>
        \<lparr>aois = Some [[[(11.49, 48.70), (11.51, 48.70), (11.51, 48.72), (11.49, 48.72),
                         (11.49, 48.70)]]], assets = None\<rparr>)) (''person'', 32857, 139173))
       = Some 1
   \<and> dom (lastByCell (snd (decideSpecialCase turf
        (snd (decideSpecialCase turf
           (snd (decideSpecialCase turf initSpecialCaseEngine
              \<lparr>label = ''person'', score = 0.91, coord = (11.50, 48.7093), ts = 0\<rparr>
              \<lparr>aois = Some [[[(11.49, 48.70), (11.51, 48.70), (11.51, 48.72), (11.49, 48.72),
                               (11.49, 48.70)]]], assets = None\<rparr>))
           \<lparr>label = ''person'', score = 0.91, coord = (11.50, 48.7093), ts = 5000\<rparr>
           \<lparr>aois = Some [[[(11.49, 48.70), (11.51, 48.70), (11.51, 48.72), (11.49, 48.72),
                            (11.49, 48.70)]]], assets = None\<rparr>))
        \<lparr>label = ''person'', score = 0.91, coord = (11.50, 48.7107), ts = 10000\<rparr>
        \<lparr>aois = Some [[[(11.49, 48.70), (11.51, 48.70), (11.51, 48.72), (11.49, 48.72),
                         (11.49, 48.70)]]], assets = None\<rparr>)))
       = {(''person'', 32857, 139169), (''person'', 32857, 139173)}"
proof -
  let ?ctx = "\<lparr>aois = Some [[[(11.49, 48.70), (11.51, 48.70), (11.51, 48.72), (11.49, 48.72),
                         (11.49, 48.70)]]], assets = None\<rparr>"
  let ?e1 = "\<lparr>label = ''person'', score = 0.91, coord = (11.50, 48.7093), ts = 0\<rparr>"
  let ?e2 = "\<lparr>label = ''person'', score = 0.91, coord = (11.50, 48.7093), ts = 5000\<rparr>"
  let ?e3 = "\<lparr>label = ''person'', score = 0.91, coord = (11.50, 48.7107), ts = 10000\<rparr>"
  let ?s2 = "snd (decideSpecialCase turf
                (snd (decideSpecialCase turf initSpecialCaseEngine ?e1 ?ctx)) ?e2 ?ctx)"
  have dt: "distance turf = turf_distance" by (simp add: turf_def)
  have pp: "booleanPointInPolygon turf = turf_booleanPointInPolygon" by (simp add: turf_def)
  have i1: "insideAOI turf ?ctx (11.50, 48.7093)"
    using inside_rectangle(1) by (simp add: insideAOI_def pp)
  have i3: "insideAOI turf ?ctx (11.50, 48.7107)"
    using inside_rectangle(2) by (simp add: insideAOI_def pp)
  have cnt: "count (updateCell (lastByCell ?s2 (cellKey ''person'' (11.50, 48.7107))) 10000) = 1"
    using two_cells
    by (simp add: decide_lastByCell toLowerCase_person updateCell_None
          initSpecialCaseEngine_def)
  have rs: "updateRecent (recent ?s2) ''person'' ?e3
          = [\<lparr>r_label = ''person'', r_coord = (11.50, 48.7093), r_ts = 0\<rparr>,
             \<lparr>r_label = ''person'', r_coord = (11.50, 48.7093), r_ts = 5000\<rparr>,
             \<lparr>r_label = ''person'', r_coord = (11.50, 48.7107), r_ts = 10000\<rparr>]"
    by (simp add: decide_recent updateRecent_eq toLowerCase_person initSpecialCaseEngine_def)
  have nohit: "\<not> clusterHit turf (updateRecent (recent ?s2) ''person'' ?e3) ''person''
                   (11.50, 48.7107) 10000"
    using ends_beyond_100 unfolding rs
    by (simp add: clusterHit_person dt turf_distance_self)
  have "fst (decideSpecialCase turf ?s2 ?e3 ?ctx) = Record"
    using nohit i3 cnt
    by (simp add: decide_fst toLowerCase_person rule_defs thr_defs)
  moreover have "lastByCell (snd (decideSpecialCase turf ?s2 ?e3 ?ctx))
      = [(''person'', 32857, 139169) \<mapsto> \<lparr>count = 2, lastTs = 5000\<rparr>,
         (''person'', 32857, 139173) \<mapsto> \<lparr>count = 1, lastTs = 10000\<rparr>]"
    using two_cells
    by (simp add: decide_lastByCell toLowerCase_person updateCell_None updateCell_Some
          initSpecialCaseEngine_def numeral_2_eq_2)
  ultimately show ?thesis
    using within_100_of_centre i1 i3 by (simp add: insert_commute)
qed

end
